theory Spec2Isabelle
  imports Main
begin

section \<open>Python values\<close>

text \<open>
  A Python \<^verbatim>\<open>str\<close> is a sequence of Unicode code points; it is modelled as the list of
  its code points. \<open>lit\<close> reads an ASCII literal of the source as such a list.
\<close>

type_synonym pystr = "nat list"

definition lit :: "string \<Rightarrow> pystr" where
  "lit s = map of_char s"

text \<open>
  The program never computes with floats: it only carries the two literals \<^verbatim>\<open>0.7\<close> and
  \<^verbatim>\<open>60.0\<close>. A float is kept as the decimal it is written as, \<open>Decimal m e\<close> for
  \<open>m * 10 ^ e\<close>.
\<close>

datatype pyfloat = Decimal int int

text \<open>
  What \<^verbatim>\<open>response.json()\<close> returns and what \<^verbatim>\<open>json=payload\<close> sends: dict, list, str,
  int, float, bool and None. A dict is an association list read with \<open>map_of\<close>.
\<close>

datatype json =
    JNull
  | JBool bool
  | JInt int
  | JFloat pyfloat
  | JStr pystr
  | JList "json list"
  | JObj "(pystr \<times> json) list"

text \<open>
  The exceptions (subclasses of \<^verbatim>\<open>Exception\<close>) that can be raised while a request is
  handled. \<open>HTTPException status_code message\<close> is FastAPI's exception with
  \<^verbatim>\<open>detail={"message": message}\<close>. \<open>TimeoutException\<close> stands for
  \<^verbatim>\<open>httpx.TimeoutException\<close> and its subclasses, \<open>RequestError\<close> for every other
  subclass of \<^verbatim>\<open>httpx.RequestError\<close>, \<open>OtherException name\<close> for any further subclass
  of \<^verbatim>\<open>Exception\<close> (a JSON decoding error, for instance).
\<close>

datatype exn =
    HTTPException int pystr
  | TimeoutException
  | RequestError
  | KeyError
  | IndexError
  | TypeError
  | AttributeError
  | OtherException pystr

text \<open>
  \<^verbatim>\<open>isinstance\<close> for the two classes named in the \<^verbatim>\<open>except\<close> clauses:
  \<^verbatim>\<open>httpx.TimeoutException\<close> is a subclass of \<^verbatim>\<open>httpx.RequestError\<close>.
\<close>

fun is_TimeoutException :: "exn \<Rightarrow> bool" where
  "is_TimeoutException TimeoutException = True"
| "is_TimeoutException _ = False"

fun is_RequestError :: "exn \<Rightarrow> bool" where
  "is_RequestError TimeoutException = True"
| "is_RequestError RequestError = True"
| "is_RequestError _ = False"

text \<open>Sequencing of statements that may raise: the first exception ends the block.\<close>

definition bind_exn :: "exn + 'a \<Rightarrow> ('a \<Rightarrow> exn + 'b) \<Rightarrow> exn + 'b" where
  "bind_exn r f = (case r of Inl e \<Rightarrow> Inl e | Inr v \<Rightarrow> f v)"

text \<open>
  \<^verbatim>\<open>x[key]\<close> with a string key: a dict looks the key up and raises KeyError when it is
  missing; every other JSON value raises TypeError.
\<close>

fun getitem_str :: "json \<Rightarrow> pystr \<Rightarrow> exn + json" where
  "getitem_str (JObj kvs) k = (case map_of kvs k of None \<Rightarrow> Inl KeyError | Some v \<Rightarrow> Inr v)"
| "getitem_str _ k = Inl TypeError"

text \<open>
  \<^verbatim>\<open>x[i]\<close> with an integer index. On a sequence of length \<open>len\<close> the positions
  \<open>0 .. len - 1\<close> are read as they are and \<open>- len .. - 1\<close> from the end; any other index
  raises IndexError. A list gives its element, a str the one-character str. A dict
  decoded from JSON has string keys only, so it raises KeyError; None, bool, int and
  float raise TypeError.
\<close>

definition py_index :: "nat \<Rightarrow> int \<Rightarrow> nat option" where
  "py_index len i =
     (if 0 \<le> i \<and> i < int len then Some (nat i)
      else if i < 0 \<and> - int len \<le> i then Some (nat (int len + i))
      else None)"

fun getitem_int :: "json \<Rightarrow> int \<Rightarrow> exn + json" where
  "getitem_int (JList xs) i =
     (case py_index (length xs) i of None \<Rightarrow> Inl IndexError | Some j \<Rightarrow> Inr (xs ! j))"
| "getitem_int (JStr s) i =
     (case py_index (length s) i of None \<Rightarrow> Inl IndexError | Some j \<Rightarrow> Inr (JStr [s ! j]))"
| "getitem_int (JObj kvs) i = Inl KeyError"
| "getitem_int _ i = Inl TypeError"

text \<open>
  \<^verbatim>\<open>str.isspace\<close> on one code point (the interpreter's table of whitespace) and
  \<^verbatim>\<open>str.strip()\<close>, which drops the whitespace at both ends.
\<close>

definition py_isspace :: "nat \<Rightarrow> bool" where
  "py_isspace c =
     (9 \<le> c \<and> c \<le> 13 \<or> 28 \<le> c \<and> c \<le> 32 \<or> c = 133 \<or> c = 160 \<or> c = 5760 \<or>
      8192 \<le> c \<and> c \<le> 8202 \<or> c = 8232 \<or> c = 8233 \<or> c = 8239 \<or> c = 8287 \<or> c = 12288)"

definition strip :: "pystr \<Rightarrow> pystr" where
  "strip s = rev (dropWhile py_isspace (rev (dropWhile py_isspace s)))"

text \<open>\<^verbatim>\<open>x.strip()\<close> on a JSON value: only a str has the method.\<close>

fun strip_method :: "json \<Rightarrow> exn + pystr" where
  "strip_method (JStr s) = Inr (strip s)"
| "strip_method _ = Inl AttributeError"

text \<open>\<^verbatim>\<open>str(n)\<close> for an int: its decimal digits, with a minus sign when negative.\<close>

function str_nat :: "nat \<Rightarrow> pystr" where
  "str_nat n = (if n < 10 then [48 + n] else str_nat (n div 10) @ [48 + n mod 10])"
  by pat_completeness auto
termination
  by (relation "measure (\<lambda>n. n)") auto

declare str_nat.simps [simp del]

definition str_int :: "int \<Rightarrow> pystr" where
  "str_int i = (if i < 0 then 45 # str_nat (nat (- i)) else str_nat (nat i))"

section \<open>The relay (main.py)\<close>

definition OPENROUTER_API_URL :: pystr where
  "OPENROUTER_API_URL = lit ''https://openrouter.ai/api/v1/chat/completions''"

record QuestionRequest =
  question :: pystr

record SuccessResponse =
  response :: pystr

text \<open>
  Truth value of an \<^verbatim>\<open>Optional[str]\<close>: None and the empty string are false.
  \<^verbatim>\<open>a or b\<close> is \<open>a\<close> when \<open>a\<close> is true and \<open>b\<close> otherwise.
\<close>

definition truthy :: "pystr option \<Rightarrow> bool" where
  "truthy v = (case v of None \<Rightarrow> False | Some s \<Rightarrow> s \<noteq> [])"

definition py_or :: "pystr option \<Rightarrow> pystr option \<Rightarrow> pystr option" where
  "py_or a b = (if truthy a then a else b)"

text \<open>
  \<^verbatim>\<open>validate_api_key\<close>. The module constant \<^verbatim>\<open>DEFAULT_API_KEY\<close> is
  \<^verbatim>\<open>os.getenv("OPENROUTER_API_KEY")\<close>, read once when the module is loaded; it is the
  first argument here.
\<close>

definition validate_api_key :: "pystr option \<Rightarrow> pystr option \<Rightarrow> exn + pystr" where
  "validate_api_key DEFAULT_API_KEY x_api_key =
     (let api_key = py_or x_api_key DEFAULT_API_KEY
      in if \<not> truthy api_key then Inl (HTTPException 401 (lit ''API Key required''))
         else (case api_key of
                 Some k \<Rightarrow> Inr k
               | None \<Rightarrow> Inl (HTTPException 401 (lit ''API Key required''))))"

definition create_request_payload :: "pystr \<Rightarrow> json" where
  "create_request_payload q =
     JObj [(lit ''model'', JStr (lit ''openai/gpt-3.5-turbo'')),
           (lit ''messages'',
              JList [JObj [(lit ''role'', JStr (lit ''user'')), (lit ''content'', JStr q)]]),
           (lit ''max_tokens'', JInt 1000),
           (lit ''temperature'', JFloat (Decimal 7 (- 1)))]"

definition create_headers :: "pystr \<Rightarrow> (pystr \<times> pystr) list" where
  "create_headers api_key =
     [(lit ''Authorization'', lit ''Bearer '' @ api_key),
      (lit ''Content-Type'', lit ''application/json'')]"

definition error_map :: "(int \<times> pystr) list" where
  "error_map =
     [(401, lit ''API Key required''),
      (402, lit ''API Key required''),
      (429, lit ''Rate limit exceeded'')]"

text \<open>\<^verbatim>\<open>handle_response_error\<close> raises on every path: its result is always \<open>Inl\<close>.\<close>

definition handle_response_error :: "int \<Rightarrow> exn + unit" where
  "handle_response_error status_code =
     (case map_of error_map status_code of
        Some m \<Rightarrow> Inl (HTTPException status_code m)
      | None \<Rightarrow>
          Inl (HTTPException status_code (lit ''OpenAI API error: '' @ str_int status_code)))"

text \<open>
  \<^verbatim>\<open>extract_response_content\<close>: the chain of subscripts and \<^verbatim>\<open>.strip()\<close> inside
  \<^verbatim>\<open>try\<close>; \<^verbatim>\<open>except KeyError\<close> turns a KeyError, and nothing else, into the
  HTTPException.
\<close>

definition extract_response_content :: "json \<Rightarrow> exn + pystr" where
  "extract_response_content json_data =
     (case bind_exn (getitem_str json_data (lit ''choices'')) (\<lambda>choices.
           bind_exn (getitem_int choices 0) (\<lambda>choice.
           bind_exn (getitem_str choice (lit ''message'')) (\<lambda>msg.
           bind_exn (getitem_str msg (lit ''content'')) strip_method))) of
        Inr s \<Rightarrow> Inr s
      | Inl e \<Rightarrow>
          if e = KeyError then Inl (HTTPException 500 (lit ''Unexpected response format''))
          else Inl e)"

subsection \<open>The outbound call\<close>

text \<open>
  One \<^verbatim>\<open>client.post\<close>: the URL, the headers, the JSON body and the timeout the client
  was built with (\<^verbatim>\<open>60.0\<close>).
\<close>

record outbound_call =
  call_url :: pystr
  call_headers :: "(pystr \<times> pystr) list"
  call_json :: json
  call_timeout :: pyfloat

text \<open>
  What the call does: \<^verbatim>\<open>await client.post(...)\<close> raises, or returns a response with a
  status code and a body on which \<^verbatim>\<open>response.json()\<close> either raises or returns the
  decoded value. The upstream is a function from the call made to its outcome: the
  call always ends, with a response or with an exception, as the client's timeout makes
  it. Only subclasses of \<^verbatim>\<open>Exception\<close> are outcomes; the cancellation of the handling
  task and the exit of the interpreter are not raised by the upstream.
  \<^verbatim>\<open>Response.is_success\<close> is httpx's test for a 2xx status.
\<close>

datatype upstream_outcome =
    Raises exn
  | Responds int "exn + json"

definition is_success :: "int \<Rightarrow> bool" where
  "is_success status_code = (200 \<le> status_code \<and> status_code \<le> 299)"

text \<open>
  \<^verbatim>\<open>call_openrouter_api\<close>. \<open>try_body\<close> is the body of its \<^verbatim>\<open>try\<close>;
  \<open>except_clauses\<close> is its three \<^verbatim>\<open>except\<close> clauses, tried in the order of the
  source, giving the exception that leaves the function. \<open>str_exc\<close> is the
  interpreter's \<^verbatim>\<open>str(e)\<close> on an exception, which the libraries raising it define;
  it gives the text as a string of characters, that is, of code points below 256.
  The result comes with the list of outbound calls made.
\<close>

definition try_body :: "(outbound_call \<Rightarrow> upstream_outcome) \<Rightarrow> outbound_call \<Rightarrow> exn + pystr" where
  "try_body upstream c =
     (case upstream c of
        Raises e \<Rightarrow> Inl e
      | Responds status_code body \<Rightarrow>
          bind_exn (if \<not> is_success status_code then handle_response_error status_code
                    else Inr ()) (\<lambda>_.
          bind_exn body extract_response_content))"

definition except_clauses :: "(exn \<Rightarrow> string) \<Rightarrow> exn \<Rightarrow> exn" where
  "except_clauses str_exc e =
     (if is_TimeoutException e then HTTPException 504 (lit ''Request timeout'')
      else if is_RequestError e then HTTPException 503 (lit ''Connection error'')
      else HTTPException 500 (lit ''Internal server error: '' @ lit (str_exc e)))"

definition call_openrouter_api ::
  "(exn \<Rightarrow> string) \<Rightarrow> (outbound_call \<Rightarrow> upstream_outcome) \<Rightarrow> pystr \<Rightarrow> pystr
     \<Rightarrow> (exn + pystr) \<times> outbound_call list" where
  "call_openrouter_api str_exc upstream api_key q =
     (let hdrs = create_headers api_key;
          payload = create_request_payload q;
          c = \<lparr>call_url = OPENROUTER_API_URL, call_headers = hdrs, call_json = payload,
               call_timeout = Decimal 600 (- 1)\<rparr>
      in (case try_body upstream c of
            Inr s \<Rightarrow> Inr s
          | Inl e \<Rightarrow> Inl (except_clauses str_exc e),
          [c]))"

text \<open>\<^verbatim>\<open>ask_openai\<close>, the handler of \<^verbatim>\<open>POST /ask\<close>.\<close>

definition ask_openai ::
  "pystr option \<Rightarrow> (exn \<Rightarrow> string) \<Rightarrow> (outbound_call \<Rightarrow> upstream_outcome)
     \<Rightarrow> QuestionRequest \<Rightarrow> pystr option \<Rightarrow> (exn + SuccessResponse) \<times> outbound_call list" where
  "ask_openai DEFAULT_API_KEY str_exc upstream request x_api_key =
     (case validate_api_key DEFAULT_API_KEY x_api_key of
        Inl e \<Rightarrow> (Inl e, [])
      | Inr api_key \<Rightarrow>
          (case call_openrouter_api str_exc upstream api_key (question request) of
             (Inl e, calls) \<Rightarrow> (Inl e, calls)
           | (Inr openai_response, calls) \<Rightarrow> (Inr \<lparr>response = openai_response\<rparr>, calls)))"

subsection \<open>What the framework sends\<close>

text \<open>
  FastAPI turns the handler's outcome into the HTTP response, whose body it encodes as
  UTF-8. A str can be encoded when it holds no surrogate code point (\<open>D800\<close> to
  \<open>DFFF\<close>); a Python str has no code point above \<open>10FFFF\<close>.
  \<^item> A returned \<^verbatim>\<open>SuccessResponse\<close> is sent with status 200 as
    \<^verbatim>\<open>{"response": ...}\<close>.
  \<^item> A raised \<^verbatim>\<open>HTTPException\<close> is sent with its own status as
    \<^verbatim>\<open>{"detail": {"message": ...}}\<close>, and with no body at all when the status allows
    none (below 200, or 204, 205, 304).
  \<^item> Any other exception, and a body that cannot be encoded, is answered with the plain
    text \<^verbatim>\<open>Internal Server Error\<close> and status 500.
\<close>

definition encodable :: "pystr \<Rightarrow> bool" where
  "encodable s = list_all (\<lambda>c. c < 55296 \<or> 57343 < c \<and> c < 1114112) s"

definition is_body_allowed_for_status_code :: "int \<Rightarrow> bool" where
  "is_body_allowed_for_status_code status_code =
     (200 \<le> status_code \<and> status_code \<noteq> 204 \<and> status_code \<noteq> 205 \<and> status_code \<noteq> 304)"

datatype http_body = JsonBody json | TextBody pystr | NoBody

definition success_body :: "pystr \<Rightarrow> http_body" where
  "success_body r = JsonBody (JObj [(lit ''response'', JStr r)])"

definition error_body :: "pystr \<Rightarrow> http_body" where
  "error_body m = JsonBody (JObj [(lit ''detail'', JObj [(lit ''message'', JStr m)])])"

definition server_error :: "int \<times> http_body" where
  "server_error = (500, TextBody (lit ''Internal Server Error''))"

fun relay_response :: "exn + SuccessResponse \<Rightarrow> int \<times> http_body" where
  "relay_response (Inr r) =
     (if encodable (response r) then (200, success_body (response r)) else server_error)"
| "relay_response (Inl (HTTPException status_code m)) =
     (if \<not> is_body_allowed_for_status_code status_code then (status_code, NoBody)
      else if encodable m then (status_code, error_body m)
      else server_error)"
| "relay_response (Inl _) = server_error"

text \<open>
  The inbound schema: \<^verbatim>\<open>class QuestionRequest(BaseModel): question: str\<close> declares one
  required field of type str, with no validator and no length constraint. A decoded body
  passes when it is an object whose \<^verbatim>\<open>question\<close> is a string, and the field is that
  string; what the validation library does with a value of another type (coercion or
  rejection) is its own rule, the parameter \<open>coerce\<close>.
\<close>

definition validate_QuestionRequest ::
  "(json \<Rightarrow> pystr option) \<Rightarrow> json \<Rightarrow> QuestionRequest option" where
  "validate_QuestionRequest coerce body =
     (case body of
        JObj kvs \<Rightarrow>
          (case map_of kvs (lit ''question'') of
             None \<Rightarrow> None
           | Some (JStr s) \<Rightarrow> Some \<lparr>question = s\<rparr>
           | Some v \<Rightarrow> map_option (\<lambda>s. \<lparr>question = s\<rparr>) (coerce v))
      | _ \<Rightarrow> None)"

section \<open>Properties\<close>

subsection \<open>Which exceptions each step can raise\<close>

lemma getitem_str_exn: "getitem_str x k = Inl e \<Longrightarrow> e = KeyError \<or> e = TypeError"
  by (cases x) (auto split: option.splits)

lemma getitem_int_exn:
  "getitem_int x i = Inl e \<Longrightarrow> e = KeyError \<or> e = IndexError \<or> e = TypeError"
  by (cases x) (auto split: option.splits)

lemma strip_method_exn: "strip_method x = Inl e \<Longrightarrow> e = AttributeError"
  by (cases x) auto

lemma extract_response_content_exn:
  assumes "extract_response_content j = Inl e"
  shows "e = HTTPException 500 (lit ''Unexpected response format'') \<or> e = IndexError
           \<or> e = TypeError \<or> e = AttributeError"
  using assms
  unfolding extract_response_content_def bind_exn_def
  by (auto split: sum.splits if_splits dest: getitem_str_exn getitem_int_exn strip_method_exn)

lemma handle_response_error_raises:
  "\<exists>m. handle_response_error s = Inl (HTTPException s m)"
  by (simp add: handle_response_error_def split: option.splits)

subsection \<open>The handler, step by step\<close>

lemma ask_openai_no_key:
  "validate_api_key d hdr = Inl e \<Longrightarrow> ask_openai d se up req hdr = (Inl e, [])"
  by (simp add: ask_openai_def)

lemma ask_openai_calls:
  "validate_api_key d hdr = Inr k \<Longrightarrow>
   snd (ask_openai d se up req hdr) =
     [\<lparr>call_url = OPENROUTER_API_URL, call_headers = create_headers k,
       call_json = create_request_payload (question req), call_timeout = Decimal 600 (- 1)\<rparr>]"
  by (simp add: ask_openai_def call_openrouter_api_def Let_def split: sum.splits)

lemma ask_openai_outcome:
  assumes "snd (ask_openai d se up req hdr) = [c]"
  shows "fst (ask_openai d se up req hdr) =
           (case try_body up c of
              Inr s \<Rightarrow> Inr \<lparr>response = s\<rparr>
            | Inl e \<Rightarrow> Inl (except_clauses se e))"
proof (cases "validate_api_key d hdr")
  case (Inl e)
  with assms show ?thesis by (simp add: ask_openai_no_key)
next
  case (Inr k)
  with assms show ?thesis
    by (auto simp: ask_openai_def call_openrouter_api_def Let_def split: sum.splits)
qed

subsection \<open>What \<open>strip\<close> removes\<close>

lemma strip_decomp:
  "\<exists>l r. s = l @ strip s @ r \<and> list_all py_isspace l \<and> list_all py_isspace r"
proof -
  let ?t = "dropWhile py_isspace s"
  let ?l = "takeWhile py_isspace s"
  let ?r = "rev (takeWhile py_isspace (rev ?t))"
  have "rev ?t = takeWhile py_isspace (rev ?t) @ dropWhile py_isspace (rev ?t)"
    by simp
  then have "?t = strip s @ ?r"
    unfolding strip_def by (metis rev_append rev_rev_ident)
  then have "s = ?l @ strip s @ ?r"
    by (metis takeWhile_dropWhile_id)
  moreover have "list_all py_isspace ?l"
    by (simp add: list_all_iff) (meson set_takeWhileD)
  moreover have "list_all py_isspace ?r"
    by (simp add: list_all_iff) (meson set_takeWhileD)
  ultimately show ?thesis by blast
qed

lemma strip_ends:
  "strip s = [] \<or> (\<not> py_isspace (hd (strip s)) \<and> \<not> py_isspace (last (strip s)))"
proof (cases "strip s = []")
  case True
  then show ?thesis by simp
next
  case False
  let ?t = "dropWhile py_isspace s"
  let ?u = "dropWhile py_isspace (rev ?t)"
  from False have u: "?u \<noteq> []" by (simp add: strip_def)
  then have "\<not> py_isspace (hd ?u)" by (rule hd_dropWhile)
  then have l: "\<not> py_isspace (last (strip s))"
    using u by (simp add: strip_def last_rev)
  have t: "?t \<noteq> []"
  proof
    assume "?t = []"
    with u show False by simp
  qed
  then have ht: "\<not> py_isspace (hd ?t)" by (rule hd_dropWhile)
  have "hd (strip s) = hd ?t"
  proof -
    obtain w where w: "?t = strip s @ w"
      unfolding strip_def
      by (metis rev_append rev_rev_ident takeWhile_dropWhile_id)
    with False show ?thesis by simp
  qed
  with ht l show ?thesis by simp
qed

subsection \<open>Evaluation and the except clauses\<close>

lemmas eval_defs =
  ask_openai_def validate_api_key_def py_or_def truthy_def lit_def
  call_openrouter_api_def Let_def try_body_def except_clauses_def bind_exn_def is_success_def
  handle_response_error_def error_map_def extract_response_content_def create_headers_def
  create_request_payload_def OPENROUTER_API_URL_def py_index_def strip_def py_isspace_def
  error_body_def success_body_def str_int_def str_nat.simps
  is_body_allowed_for_status_code_def server_error_def

lemma validate_api_key_raises:
  "validate_api_key d hdr = Inl e \<Longrightarrow> e = HTTPException 401 (lit ''API Key required'')"
  by (auto simp: validate_api_key_def Let_def split: if_splits option.splits)

lemma calls_give_key:
  "snd (ask_openai d se up req hdr) = [c] \<Longrightarrow> \<exists>k. validate_api_key d hdr = Inr k"
  by (cases "validate_api_key d hdr") (simp_all add: ask_openai_no_key)

lemma handle_response_error_table:
  "handle_response_error s =
     Inl (HTTPException s
       (if s = 401 \<or> s = 402 then lit ''API Key required''
        else if s = 429 then lit ''Rate limit exceeded''
        else lit ''OpenAI API error: '' @ str_int s))"
  by (simp add: handle_response_error_def error_map_def)

lemma except_clauses_internal:
  "\<not> is_RequestError e \<Longrightarrow>
   except_clauses se e = HTTPException 500 (lit ''Internal server error: '' @ lit (se e))"
  by (cases e) (simp_all add: except_clauses_def)

subsection \<open>Which texts can be encoded\<close>

lemma encodable_append [simp]: "encodable (a @ b) = (encodable a \<and> encodable b)"
  by (simp add: encodable_def)

lemma encodable_lit [simp]: "encodable (lit s)"
proof -
  have "(of_char c :: nat) < 256" for c :: char
    by (metis of_char_mod_256 mod_less_divisor zero_less_numeral)
  then have "(of_char c :: nat) < 55296" for c :: char
    by (rule less_trans) simp
  then show ?thesis
    by (simp add: encodable_def lit_def list_all_iff)
qed

lemma encodable_strip: "encodable s \<Longrightarrow> encodable (strip s)"
proof -
  assume enc: "encodable s"
  obtain l r where "s = l @ strip s @ r"
    using strip_decomp [of s] by blast
  then have "encodable (l @ strip s @ r)"
    using enc by simp
  then show ?thesis by simp
qed

lemma relay_response_HTTPException:
  "is_body_allowed_for_status_code s \<Longrightarrow> encodable m \<Longrightarrow>
   relay_response (Inl (HTTPException s m)) = (s, error_body m)"
  by simp

lemma relay_response_internal:
  "relay_response (Inl (HTTPException 500 (lit ''Internal server error: '' @ lit t)))
     = (500, error_body (lit ''Internal server error: '' @ lit t))"
  by (simp add: is_body_allowed_for_status_code_def)

section \<open>The claims\<close>

subsection \<open>C1: the status table\<close>

text \<open>
  C1 says that a non-2xx upstream status reaches the caller with the status and message of
  \<open>handle_response_error\<close>'s table. The table is there: status 429 raises the
  HTTPException 429 \<^verbatim>\<open>Rate limit exceeded\<close>. But it is raised inside the \<^verbatim>\<open>try\<close> of
  \<open>call_openrouter_api\<close>, whose last clause \<^verbatim>\<open>except Exception\<close> catches it: with an
  upstream that answers 429, the caller receives status 500 and the message
  \<^verbatim>\<open>Internal server error: \<close> followed by the text of the caught exception.
\<close>

theorem upstream_429_relayed_as_500:
  "handle_response_error 429 = Inl (HTTPException 429 (lit ''Rate limit exceeded''))
   \<and> relay_response (fst (ask_openai None se (\<lambda>c. Responds 429 (Inr JNull))
        \<lparr>question = lit ''hi''\<rparr> (Some (lit ''k''))))
     = (500, error_body (lit ''Internal server error: ''
                          @ lit (se (HTTPException 429 (lit ''Rate limit exceeded'')))))"
proof -
  have "fst (ask_openai None se (\<lambda>c. Responds 429 (Inr JNull))
          \<lparr>question = lit ''hi''\<rparr> (Some (lit ''k'')))
        = Inl (HTTPException 500 (lit ''Internal server error: ''
                 @ lit (se (HTTPException 429 (lit ''Rate limit exceeded'')))))"
    by (simp add: eval_defs)
  moreover have "handle_response_error 429
                   = Inl (HTTPException 429 (lit ''Rate limit exceeded''))"
    by (simp add: handle_response_error_def error_map_def)
  ultimately show ?thesis
    by (simp only: relay_response_internal simp_thms)
qed

subsection \<open>C2: a body without the expected structure\<close>

text \<open>
  C2 says that a 2xx body lacking the expected structure is answered with status 500 and
  the message \<^verbatim>\<open>Unexpected response format\<close>. \<open>extract_response_content\<close> raises that
  HTTPException for a missing key, but the \<^verbatim>\<open>except Exception\<close> of
  \<open>call_openrouter_api\<close> catches it: for the body \<^verbatim>\<open>{}\<close> the caller receives status 500
  with the message \<^verbatim>\<open>Internal server error: \<close> followed by the text of that exception.
  For \<^verbatim>\<open>{"choices": []}\<close> the subscript raises IndexError, which \<^verbatim>\<open>except KeyError\<close>
  does not catch, and the message is \<^verbatim>\<open>Internal server error: \<close> followed by the text of
  the IndexError. No message of that form is \<^verbatim>\<open>Unexpected response format\<close>.
\<close>

theorem malformed_body_relayed_as_internal_error:
  "extract_response_content (JObj []) = Inl (HTTPException 500 (lit ''Unexpected response format''))
   \<and> relay_response (fst (ask_openai None se (\<lambda>c. Responds 200 (Inr (JObj [])))
        \<lparr>question = lit ''hi''\<rparr> (Some (lit ''k''))))
     = (500, error_body (lit ''Internal server error: ''
                          @ lit (se (HTTPException 500 (lit ''Unexpected response format'')))))
   \<and> relay_response (fst (ask_openai None se
        (\<lambda>c. Responds 200 (Inr (JObj [(lit ''choices'', JList [])])))
        \<lparr>question = lit ''hi''\<rparr> (Some (lit ''k''))))
     = (500, error_body (lit ''Internal server error: '' @ lit (se IndexError)))
   \<and> error_body (lit ''Internal server error: '' @ x)
        \<noteq> error_body (lit ''Unexpected response format'')"
proof -
  have "extract_response_content (JObj [])
          = Inl (HTTPException 500 (lit ''Unexpected response format''))"
    by (simp add: extract_response_content_def bind_exn_def)
  moreover have "fst (ask_openai None se (\<lambda>c. Responds 200 (Inr (JObj [])))
          \<lparr>question = lit ''hi''\<rparr> (Some (lit ''k'')))
        = Inl (HTTPException 500 (lit ''Internal server error: ''
                 @ lit (se (HTTPException 500 (lit ''Unexpected response format'')))))"
    by (simp add: eval_defs)
  moreover have "fst (ask_openai None se
          (\<lambda>c. Responds 200 (Inr (JObj [(lit ''choices'', JList [])])))
          \<lparr>question = lit ''hi''\<rparr> (Some (lit ''k'')))
        = Inl (HTTPException 500 (lit ''Internal server error: '' @ lit (se IndexError)))"
    by (simp add: eval_defs)
  moreover have "error_body (lit ''Internal server error: '' @ x)
                   \<noteq> error_body (lit ''Unexpected response format'')"
    by (simp add: error_body_def lit_def)
  ultimately show ?thesis
    by (simp only: relay_response_internal simp_thms)
qed

subsection \<open>C3: errors raised inside the upstream call are rewrapped\<close>

text \<open>
  C3. When the upstream answers the handler's call with a non-2xx status, or with a 2xx
  status and a decoded body on which \<open>extract_response_content\<close> raises, the caller
  receives status 500 and a message that begins with \<^verbatim>\<open>Internal server error: \<close>. An
  empty \<^verbatim>\<open>choices\<close> list makes the extraction raise IndexError, not KeyError.
\<close>

theorem relay_errors_rewrapped:
  assumes calls: "snd (ask_openai d se up req hdr) = [c]"
      and resp: "up c = Responds s body"
      and fails: "\<not> is_success s \<or> (\<exists>j e. body = Inr j \<and> extract_response_content j = Inl e)"
  shows "(\<exists>cause. relay_response (fst (ask_openai d se up req hdr))
            = (500, error_body (lit ''Internal server error: '' @ cause)))
         \<and> extract_response_content (JObj [(lit ''choices'', JList [])]) = Inl IndexError"
proof -
  have "\<exists>e. try_body up c = Inl e \<and> \<not> is_RequestError e"
  proof (cases "is_success s")
    case False
    obtain m where "handle_response_error s = Inl (HTTPException s m)"
      using handle_response_error_raises by blast
    with False resp show ?thesis
      by (simp add: try_body_def bind_exn_def)
  next
    case True
    with fails obtain j e where j: "body = Inr j" "extract_response_content j = Inl e"
      by blast
    from j(2) have "\<not> is_RequestError e"
      by (auto dest: extract_response_content_exn)
    with True resp j show ?thesis
      by (simp add: try_body_def bind_exn_def)
  qed
  then obtain e where e: "try_body up c = Inl e" "\<not> is_RequestError e"
    by blast
  have "fst (ask_openai d se up req hdr) = Inl (except_clauses se e)"
    using ask_openai_outcome [OF calls] e(1) by simp
  moreover from e(2)
  have "except_clauses se e = HTTPException 500 (lit ''Internal server error: '' @ lit (se e))"
    by (rule except_clauses_internal)
  ultimately have "relay_response (fst (ask_openai d se up req hdr))
                    = (500, error_body (lit ''Internal server error: '' @ lit (se e)))"
    by (simp only: relay_response_internal)
  moreover have "extract_response_content (JObj [(lit ''choices'', JList [])]) = Inl IndexError"
    by (simp add: extract_response_content_def bind_exn_def py_index_def)
  ultimately show ?thesis by blast
qed

theorem relay_errors_rewrapped_witness:
  "(\<exists>cause. relay_response (fst (ask_openai None (\<lambda>e. []) (\<lambda>c. Responds 429 (Inr JNull))
        \<lparr>question = lit ''hi''\<rparr> (Some (lit ''k''))))
      = (500, error_body (lit ''Internal server error: '' @ cause)))
   \<and> (\<exists>cause. relay_response (fst (ask_openai None (\<lambda>e. [])
        (\<lambda>c. Responds 200 (Inr (JObj [(lit ''choices'', JList [])])))
        \<lparr>question = lit ''hi''\<rparr> (Some (lit ''k''))))
      = (500, error_body (lit ''Internal server error: '' @ cause)))"
proof -
  let ?c = "\<lparr>call_url = OPENROUTER_API_URL, call_headers = create_headers (lit ''k''),
             call_json = create_request_payload (lit ''hi''),
             call_timeout = Decimal 600 (- 1)\<rparr>"
  have k: "validate_api_key None (Some (lit ''k'')) = Inr (lit ''k'')"
    by (simp add: validate_api_key_def py_or_def truthy_def lit_def)
  have c: "snd (ask_openai None se up \<lparr>question = lit ''hi''\<rparr> (Some (lit ''k''))) = [?c]"
    for se up
    using ask_openai_calls [OF k] by simp
  have f1: "\<not> is_success 429 \<or> (\<exists>j e. (Inr JNull :: exn + json) = Inr j
              \<and> extract_response_content j = Inl e)"
    by (simp add: is_success_def)
  have f2: "\<not> is_success 200 \<or> (\<exists>j e. (Inr (JObj [(lit ''choices'', JList [])]) :: exn + json) = Inr j
              \<and> extract_response_content j = Inl e)"
    by (simp add: extract_response_content_def bind_exn_def py_index_def)
  show ?thesis
    using relay_errors_rewrapped [OF c refl f1] relay_errors_rewrapped [OF c refl f2]
    by blast
qed

subsection \<open>C4: the success path\<close>

text \<open>
  C4 as stated fails. The upstream answers 200 with the body
  \<^verbatim>\<open>{"choices": [{"message": {"content": "\ud800"}}]}\<close>, whose content is the string
  of one surrogate code point: the extraction succeeds and the handler returns
  \<^verbatim>\<open>SuccessResponse\<close> with that string, which cannot be encoded, so the caller receives
  status 500 with the plain text \<^verbatim>\<open>Internal Server Error\<close> and not status 200.
\<close>

theorem success_unencodable_content_counterexample:
  "is_success 200
   \<and> extract_response_content (JObj [(lit ''choices'',
          JList [JObj [(lit ''message'', JObj [(lit ''content'', JStr [55296])])]])])
       = Inr [55296]
   \<and> fst (ask_openai None (\<lambda>e. [])
        (\<lambda>c. Responds 200 (Inr (JObj [(lit ''choices'',
            JList [JObj [(lit ''message'', JObj [(lit ''content'', JStr [55296])])]])])))
        \<lparr>question = lit ''hi''\<rparr> (Some (lit ''k'')))
       = Inr \<lparr>response = [55296]\<rparr>
   \<and> relay_response (fst (ask_openai None (\<lambda>e. [])
        (\<lambda>c. Responds 200 (Inr (JObj [(lit ''choices'',
            JList [JObj [(lit ''message'', JObj [(lit ''content'', JStr [55296])])]])])))
        \<lparr>question = lit ''hi''\<rparr> (Some (lit ''k''))))
       = (500, TextBody (lit ''Internal Server Error''))
   \<and> relay_response (fst (ask_openai None (\<lambda>e. [])
        (\<lambda>c. Responds 200 (Inr (JObj [(lit ''choices'',
            JList [JObj [(lit ''message'', JObj [(lit ''content'', JStr [55296])])]])])))
        \<lparr>question = lit ''hi''\<rparr> (Some (lit ''k''))))
       \<noteq> (200, success_body (strip [55296]))"
  by (simp add: eval_defs encodable_def)

text \<open>
  C4, amended. When the credential is usable (the handler makes its call), the upstream
  answers with a 2xx status, and \<^verbatim>\<open>body['choices'][0]['message']['content']\<close> is a
  string that can be encoded (it holds no surrogate code point), the handler returns
  \<^verbatim>\<open>SuccessResponse\<close> with that string stripped, sent with status 200 as
  \<^verbatim>\<open>{"response": ...}\<close>. Stripped means: the content is the response between two runs
  of whitespace, and the response neither starts nor ends with whitespace. This holds
  for every question, the empty one included.
\<close>

theorem success_returns_stripped_content:
  assumes calls: "snd (ask_openai d se up req hdr) = [c]"
      and resp: "up c = Responds s (Inr body)" and ok: "is_success s"
      and choices: "getitem_str body (lit ''choices'') = Inr choices"
      and choice: "getitem_int choices 0 = Inr choice"
      and msg: "getitem_str choice (lit ''message'') = Inr msg"
      and content: "getitem_str msg (lit ''content'') = Inr (JStr content)"
      and enc: "encodable content"
  shows "fst (ask_openai d se up req hdr) = Inr \<lparr>response = strip content\<rparr>
         \<and> relay_response (fst (ask_openai d se up req hdr)) = (200, success_body (strip content))
         \<and> (\<exists>l r. content = l @ strip content @ r \<and> list_all py_isspace l \<and> list_all py_isspace r)
         \<and> (strip content = [] \<or>
              \<not> py_isspace (hd (strip content)) \<and> \<not> py_isspace (last (strip content)))"
proof -
  have "extract_response_content body = Inr (strip content)"
    using choices choice msg content
    by (simp add: extract_response_content_def bind_exn_def)
  with resp ok have "try_body up c = Inr (strip content)"
    by (simp add: try_body_def bind_exn_def)
  then have "fst (ask_openai d se up req hdr) = Inr \<lparr>response = strip content\<rparr>"
    using ask_openai_outcome [OF calls] by simp
  then show ?thesis
    using strip_decomp [of content] strip_ends [of content] encodable_strip [OF enc] by simp
qed

theorem success_returns_stripped_content_witness:
  "relay_response (fst (ask_openai None (\<lambda>e. [])
      (\<lambda>c. Responds 200 (Inr (JObj [(lit ''choices'',
          JList [JObj [(lit ''message'', JObj [(lit ''content'', JStr (lit '' 42 ''))])]])])))
      \<lparr>question = lit ''hi''\<rparr> (Some (lit ''k''))))
   = (200, success_body (lit ''42''))"
proof -
  let ?c = "\<lparr>call_url = OPENROUTER_API_URL, call_headers = create_headers (lit ''k''),
             call_json = create_request_payload (lit ''hi''),
             call_timeout = Decimal 600 (- 1)\<rparr>"
  let ?m = "JObj [(lit ''content'', JStr (lit '' 42 ''))]"
  let ?ch = "JObj [(lit ''message'', ?m)]"
  let ?b = "JObj [(lit ''choices'', JList [?ch])]"
  have k: "validate_api_key None (Some (lit ''k'')) = Inr (lit ''k'')"
    by (simp add: validate_api_key_def py_or_def truthy_def lit_def)
  have c: "snd (ask_openai None se up \<lparr>question = lit ''hi''\<rparr> (Some (lit ''k''))) = [?c]"
    for se up
    using ask_openai_calls [OF k] by simp
  have ok: "is_success 200" by (simp add: is_success_def)
  have g1: "getitem_str ?b (lit ''choices'') = Inr (JList [?ch])" by simp
  have g2: "getitem_int (JList [?ch]) 0 = Inr ?ch" by (simp add: py_index_def)
  have g3: "getitem_str ?ch (lit ''message'') = Inr ?m" by simp
  have g4: "getitem_str ?m (lit ''content'') = Inr (JStr (lit '' 42 ''))" by simp
  have enc: "encodable (lit '' 42 '')" by simp
  have s: "strip (lit '' 42 '') = lit ''42''"
    by (simp add: strip_def py_isspace_def lit_def)
  show ?thesis
    using success_returns_stripped_content [OF c refl ok g1 g2 g3 g4 enc] s by simp
qed

subsection \<open>C5: the credential\<close>

text \<open>
  C5. \<open>validate_api_key\<close> returns the caller's credential when it is present and not
  empty; otherwise the default credential when that is present and not empty; and when
  neither is, the handler raises HTTPException 401 \<^verbatim>\<open>API Key required\<close>, sent with
  status 401, and makes no outbound call.
\<close>

theorem key_resolution:
  "(hdr = Some k \<and> k \<noteq> [] \<longrightarrow> validate_api_key d hdr = Inr k)
   \<and> ((hdr = None \<or> hdr = Some []) \<and> d = Some k \<and> k \<noteq> [] \<longrightarrow> validate_api_key d hdr = Inr k)
   \<and> ((hdr = None \<or> hdr = Some []) \<and> (d = None \<or> d = Some []) \<longrightarrow>
         validate_api_key d hdr = Inl (HTTPException 401 (lit ''API Key required''))
         \<and> ask_openai d se up req hdr = (Inl (HTTPException 401 (lit ''API Key required'')), [])
         \<and> relay_response (fst (ask_openai d se up req hdr))
             = (401, error_body (lit ''API Key required'')))"
  by (auto simp: validate_api_key_def py_or_def truthy_def Let_def ask_openai_def
      is_body_allowed_for_status_code_def)

theorem key_resolution_witness:
  "validate_api_key (Some (lit ''dflt'')) (Some (lit ''k'')) = Inr (lit ''k'')
   \<and> validate_api_key (Some (lit ''dflt'')) (Some []) = Inr (lit ''dflt'')
   \<and> ask_openai None (\<lambda>e. []) (\<lambda>c. Responds 200 (Inr JNull)) \<lparr>question = lit ''hi''\<rparr> None
       = (Inl (HTTPException 401 (lit ''API Key required'')), [])
   \<and> relay_response (fst (ask_openai None (\<lambda>e. []) (\<lambda>c. Responds 200 (Inr JNull))
         \<lparr>question = lit ''hi''\<rparr> None))
       = (401, error_body (lit ''API Key required''))"
  using key_resolution [of "Some (lit ''k'')" "lit ''k''" "Some (lit ''dflt'')"]
        key_resolution [of "Some []" "lit ''dflt''" "Some (lit ''dflt'')"]
        key_resolution [of None k None "\<lambda>e. []" "\<lambda>c. Responds 200 (Inr JNull)"
                           "\<lparr>question = lit ''hi''\<rparr>"]
  by (simp add: lit_def encodable_def is_body_allowed_for_status_code_def)

subsection \<open>C6: timeouts and transport failures\<close>

text \<open>
  C6. The client is built with the timeout 60.0. When the handler's call raises
  \<^verbatim>\<open>httpx.TimeoutException\<close>, the caller receives status 504 with the message
  \<^verbatim>\<open>Request timeout\<close>; when it raises any other \<^verbatim>\<open>httpx.RequestError\<close>, status 503
  with the message \<^verbatim>\<open>Connection error\<close>.
\<close>

theorem transport_failures:
  assumes calls: "snd (ask_openai d se up req hdr) = [c]"
      and raises: "up c = Raises e"
  shows "(is_TimeoutException e \<longrightarrow>
            relay_response (fst (ask_openai d se up req hdr))
              = (504, error_body (lit ''Request timeout'')))
         \<and> (is_RequestError e \<and> \<not> is_TimeoutException e \<longrightarrow>
            relay_response (fst (ask_openai d se up req hdr))
              = (503, error_body (lit ''Connection error'')))
         \<and> call_timeout c = Decimal 600 (- 1)"
proof -
  from raises have "try_body up c = Inl e"
    by (simp add: try_body_def)
  then have out: "fst (ask_openai d se up req hdr) = Inl (except_clauses se e)"
    using ask_openai_outcome [OF calls] by simp
  obtain k where "validate_api_key d hdr = Inr k"
    using calls_give_key [OF calls] by blast
  from ask_openai_calls [OF this, of se up req] calls
  have "call_timeout c = Decimal 600 (- 1)"
    by auto
  with out show ?thesis
    by (simp add: except_clauses_def is_body_allowed_for_status_code_def)
qed

theorem transport_failures_witness:
  "relay_response (fst (ask_openai None (\<lambda>e. []) (\<lambda>c. Raises TimeoutException)
       \<lparr>question = lit ''hi''\<rparr> (Some (lit ''k''))))
     = (504, error_body (lit ''Request timeout''))
   \<and> relay_response (fst (ask_openai None (\<lambda>e. []) (\<lambda>c. Raises RequestError)
       \<lparr>question = lit ''hi''\<rparr> (Some (lit ''k''))))
     = (503, error_body (lit ''Connection error''))"
proof -
  let ?c = "\<lparr>call_url = OPENROUTER_API_URL, call_headers = create_headers (lit ''k''),
             call_json = create_request_payload (lit ''hi''),
             call_timeout = Decimal 600 (- 1)\<rparr>"
  have k: "validate_api_key None (Some (lit ''k'')) = Inr (lit ''k'')"
    by (simp add: validate_api_key_def py_or_def truthy_def lit_def)
  have c1: "snd (ask_openai None (\<lambda>e. []) (\<lambda>c. Raises TimeoutException)
              \<lparr>question = lit ''hi''\<rparr> (Some (lit ''k''))) = [?c]"
    using ask_openai_calls [OF k] by simp
  have c2: "snd (ask_openai None (\<lambda>e. []) (\<lambda>c. Raises RequestError)
              \<lparr>question = lit ''hi''\<rparr> (Some (lit ''k''))) = [?c]"
    using ask_openai_calls [OF k] by simp
  show ?thesis
    using transport_failures [OF c1 refl] transport_failures [OF c2 refl]
    by simp
qed

subsection \<open>C7: the payload\<close>

text \<open>
  C7. For every question \<open>q\<close>, \<open>create_request_payload\<close> gives exactly the fixed body:
  model \<^verbatim>\<open>openai/gpt-3.5-turbo\<close>, a messages list with the single entry of role
  \<^verbatim>\<open>user\<close> and content \<open>q\<close>, \<^verbatim>\<open>max_tokens\<close> 1000 and \<^verbatim>\<open>temperature\<close> 0.7, each
  read back by its key. Nothing of the caller but the question reaches it: whatever the
  header, the default credential and the upstream are, every outbound call of the handler
  carries \<open>create_request_payload\<close> of the request's question.
\<close>

theorem payload_is_fixed:
  "create_request_payload q =
     JObj [(lit ''model'', JStr (lit ''openai/gpt-3.5-turbo'')),
           (lit ''messages'',
              JList [JObj [(lit ''role'', JStr (lit ''user'')), (lit ''content'', JStr q)]]),
           (lit ''max_tokens'', JInt 1000),
           (lit ''temperature'', JFloat (Decimal 7 (- 1)))]
   \<and> getitem_str (create_request_payload q) (lit ''model'') = Inr (JStr (lit ''openai/gpt-3.5-turbo''))
   \<and> getitem_str (create_request_payload q) (lit ''messages'')
        = Inr (JList [JObj [(lit ''role'', JStr (lit ''user'')), (lit ''content'', JStr q)]])
   \<and> getitem_str (create_request_payload q) (lit ''max_tokens'') = Inr (JInt 1000)
   \<and> getitem_str (create_request_payload q) (lit ''temperature'') = Inr (JFloat (Decimal 7 (- 1)))
   \<and> set (map call_json (snd (ask_openai d se up req hdr)))
        \<subseteq> {create_request_payload (question req)}"
proof -
  have "set (map call_json (snd (ask_openai d se up req hdr)))
        \<subseteq> {create_request_payload (question req)}"
  proof (cases "validate_api_key d hdr")
    case (Inl e)
    then show ?thesis by (simp add: ask_openai_no_key)
  next
    case (Inr k)
    then show ?thesis by (simp add: ask_openai_calls)
  qed
  moreover have "getitem_str (create_request_payload q) (lit ''model'')
                   = Inr (JStr (lit ''openai/gpt-3.5-turbo''))"
    by (simp add: create_request_payload_def)
  moreover have "getitem_str (create_request_payload q) (lit ''messages'')
        = Inr (JList [JObj [(lit ''role'', JStr (lit ''user'')), (lit ''content'', JStr q)]])"
    by (simp add: create_request_payload_def lit_def)
  moreover have "getitem_str (create_request_payload q) (lit ''max_tokens'') = Inr (JInt 1000)"
    by (simp add: create_request_payload_def lit_def)
  moreover have "getitem_str (create_request_payload q) (lit ''temperature'')
                   = Inr (JFloat (Decimal 7 (- 1)))"
    by (simp add: create_request_payload_def lit_def)
  ultimately show ?thesis
    by (simp add: create_request_payload_def)
qed

theorem payload_is_fixed_witness:
  "set (map call_json (snd (ask_openai None (\<lambda>e. []) (\<lambda>c. Raises RequestError)
        \<lparr>question = lit ''hi''\<rparr> (Some (lit ''k'')))))
     \<subseteq> {create_request_payload (lit ''hi'')}
   \<and> map call_json (snd (ask_openai None (\<lambda>e. []) (\<lambda>c. Raises RequestError)
        \<lparr>question = lit ''hi''\<rparr> (Some (lit ''k''))))
     = [JObj [(lit ''model'', JStr (lit ''openai/gpt-3.5-turbo'')),
           (lit ''messages'',
              JList [JObj [(lit ''role'', JStr (lit ''user'')), (lit ''content'', JStr (lit ''hi''))]]),
           (lit ''max_tokens'', JInt 1000),
           (lit ''temperature'', JFloat (Decimal 7 (- 1)))]]"
  using payload_is_fixed [of "lit ''hi''" None "\<lambda>e. []" "\<lambda>c. Raises RequestError"
      "\<lparr>question = lit ''hi''\<rparr>" "Some (lit ''k'')"]
  by (simp add: ask_openai_def validate_api_key_def py_or_def truthy_def lit_def
      call_openrouter_api_def Let_def try_body_def except_clauses_def create_request_payload_def)

subsection \<open>C8: exactly one result\<close>

text \<open>
  C8. For every default credential, header, request and upstream, the handler ends in
  exactly one of two ways: it returns a \<^verbatim>\<open>SuccessResponse\<close> holding the answer, or it
  raises an \<^verbatim>\<open>HTTPException\<close>, which carries a status code and a message. No other
  exception leaves the handler.
\<close>

theorem exactly_one_result:
  "(\<exists>a. fst (ask_openai d se up req hdr) = Inr \<lparr>response = a\<rparr>)
   \<noteq> (\<exists>s m. fst (ask_openai d se up req hdr) = Inl (HTTPException s m))"
proof (cases "validate_api_key d hdr")
  case (Inl e)
  then have "ask_openai d se up req hdr = (Inl (HTTPException 401 (lit ''API Key required'')), [])"
    using validate_api_key_raises [OF Inl] by (simp add: ask_openai_no_key)
  then show ?thesis by simp
next
  case (Inr k)
  from ask_openai_calls [OF Inr, of se up req] obtain c
    where c: "snd (ask_openai d se up req hdr) = [c]" by blast
  show ?thesis
  proof (cases "try_body up c")
    case (Inl e)
    then have "fst (ask_openai d se up req hdr) = Inl (except_clauses se e)"
      using ask_openai_outcome [OF c] by simp
    then show ?thesis
      by (simp add: except_clauses_def)
  next
    case (Inr a)
    then have "fst (ask_openai d se up req hdr) = Inr \<lparr>response = a\<rparr>"
      using ask_openai_outcome [OF c] by simp
    then show ?thesis by simp
  qed
qed

theorem exactly_one_result_witness:
  "(\<exists>a. fst (ask_openai None (\<lambda>e. []) (\<lambda>c. Raises KeyError) \<lparr>question = []\<rparr> (Some [107]))
          = Inr \<lparr>response = a\<rparr>)
   \<noteq> (\<exists>s m. fst (ask_openai None (\<lambda>e. []) (\<lambda>c. Raises KeyError) \<lparr>question = []\<rparr> (Some [107]))
          = Inl (HTTPException s m))"
  by (rule exactly_one_result)

subsection \<open>C9: the same inputs give the same response\<close>

text \<open>
  C9. Two runs with the same question and the same resolved credential, against the same
  upstream, give the same result, the same outbound calls and the same response: the
  header and the default credential matter only through the credential they resolve to.
\<close>

theorem same_inputs_same_response:
  assumes "validate_api_key d1 h1 = validate_api_key d2 h2"
      and "question r1 = question r2"
  shows "ask_openai d1 se up r1 h1 = ask_openai d2 se up r2 h2
         \<and> relay_response (fst (ask_openai d1 se up r1 h1))
             = relay_response (fst (ask_openai d2 se up r2 h2))"
proof -
  have "ask_openai d1 se up r1 h1 = ask_openai d2 se up r2 h2"
    unfolding ask_openai_def assms(1) assms(2) by (rule refl)
  then show ?thesis by simp
qed

theorem same_inputs_same_response_witness:
  "ask_openai (Some [107]) (\<lambda>e. []) (\<lambda>c. Responds 200 (Inr JNull)) \<lparr>question = [113]\<rparr> None
     = ask_openai None (\<lambda>e. []) (\<lambda>c. Responds 200 (Inr JNull)) \<lparr>question = [113]\<rparr> (Some [107])"
proof -
  have k: "validate_api_key (Some [107]) None = validate_api_key None (Some [107])"
    by (simp add: validate_api_key_def py_or_def truthy_def)
  have q: "question \<lparr>question = [113]\<rparr> = question \<lparr>question = [113]\<rparr>"
    by simp
  show ?thesis
    using same_inputs_same_response [OF k q] by simp
qed

subsection \<open>C10: the empty question\<close>

text \<open>
  C10. The body \<^verbatim>\<open>{"question": ""}\<close> passes the schema, giving the request with the empty
  question; with a usable credential the handler's single outbound call carries
  \<open>create_request_payload\<close> of the empty string, whose
  \<^verbatim>\<open>['messages'][0]['content']\<close> is the empty string.
\<close>

theorem empty_question_forwarded:
  "validate_QuestionRequest coerce (JObj [(lit ''question'', JStr [])]) = Some \<lparr>question = []\<rparr>
   \<and> (validate_api_key d hdr = Inr k \<longrightarrow>
        map call_json (snd (ask_openai d se up \<lparr>question = []\<rparr> hdr)) = [create_request_payload []])
   \<and> bind_exn (getitem_str (create_request_payload []) (lit ''messages'')) (\<lambda>ms.
        bind_exn (getitem_int ms 0) (\<lambda>m. getitem_str m (lit ''content''))) = Inr (JStr [])"
proof -
  have "validate_QuestionRequest coerce (JObj [(lit ''question'', JStr [])])
          = Some \<lparr>question = []\<rparr>"
    by (simp add: validate_QuestionRequest_def)
  moreover have "validate_api_key d hdr = Inr k \<longrightarrow>
        map call_json (snd (ask_openai d se up \<lparr>question = []\<rparr> hdr)) = [create_request_payload []]"
    by (simp add: ask_openai_calls)
  moreover have "bind_exn (getitem_str (create_request_payload []) (lit ''messages'')) (\<lambda>ms.
        bind_exn (getitem_int ms 0) (\<lambda>m. getitem_str m (lit ''content''))) = Inr (JStr [])"
    by (simp add: create_request_payload_def bind_exn_def py_index_def lit_def)
  ultimately show ?thesis by blast
qed

theorem empty_question_forwarded_witness:
  "validate_QuestionRequest (\<lambda>v. None) (JObj [(lit ''question'', JStr [])]) = Some \<lparr>question = []\<rparr>
   \<and> map call_json (snd (ask_openai None (\<lambda>e. []) (\<lambda>c. Raises KeyError) \<lparr>question = []\<rparr>
        (Some (lit ''k'')))) = [create_request_payload []]"
proof -
  have k: "validate_api_key None (Some (lit ''k'')) = Inr (lit ''k'')"
    by (simp add: validate_api_key_def py_or_def truthy_def lit_def)
  show ?thesis
    using empty_question_forwarded [of "\<lambda>v. None" None "Some (lit ''k'')" "lit ''k''"
        "\<lambda>e. []" "\<lambda>c. Raises KeyError"] k
    by simp
qed

end
